theory Spec2Isabelle
  imports Complex_Main "HOL-Library.Product_Lexorder"
begin

section \<open>Strings and the numeric literals of the host language\<close>

text \<open>
  Strings are lists of characters; the models below cover ASCII input.  The source relies
  on three conversions of the Python runtime: \<^verbatim>\<open>str.replace\<close>, \<^verbatim>\<open>str.strip\<close> and
  \<^verbatim>\<open>float(str)\<close>.  They are written out here after the language reference.
\<close>

definition str_replace_char :: "char \<Rightarrow> string \<Rightarrow> string \<Rightarrow> string" where
  \<comment> \<open>\<^verbatim>\<open>s.replace(c, r)\<close> for a pattern \<open>c\<close> of one character\<close>
  "str_replace_char c r s = concat (map (\<lambda>x. if x = c then r else [x]) s)"

definition is_space_str :: "char \<Rightarrow> bool" where
  \<comment> \<open>the ASCII characters that \<^verbatim>\<open>str.strip()\<close> removes\<close>
  "is_space_str c = (c \<in> set [CHR 0x09, CHR 0x0A, CHR 0x0B, CHR 0x0C, CHR 0x0D,
                                CHR 0x1C, CHR 0x1D, CHR 0x1E, CHR 0x1F, CHR '' ''])"

definition is_space_num :: "char \<Rightarrow> bool" where
  \<comment> \<open>the characters that \<^verbatim>\<open>float()\<close> and \<^verbatim>\<open>int()\<close> skip around a literal\<close>
  "is_space_num c = (c \<in> set [CHR 0x09, CHR 0x0A, CHR 0x0B, CHR 0x0C, CHR 0x0D, CHR '' ''])"

definition strip_with :: "(char \<Rightarrow> bool) \<Rightarrow> string \<Rightarrow> string" where
  "strip_with p s = rev (dropWhile p (rev (dropWhile p s)))"

definition py_strip :: "string \<Rightarrow> string" where
  "py_strip s = strip_with is_space_str s"

definition is_digit :: "char \<Rightarrow> bool" where
  "is_digit c = (c \<in> set ''0123456789'')"

definition digit_val :: "char \<Rightarrow> int" where
  "digit_val c = (case map_of (zip ''0123456789'' [0, 1, 2, 3, 4, 5, 6, 7, 8, 9]) c of
                    None \<Rightarrow> 0 | Some v \<Rightarrow> v)"

definition lower_char :: "char \<Rightarrow> char" where
  "lower_char c = (case map_of (zip ''ABCDEFGHIJKLMNOPQRSTUVWXYZ'' ''abcdefghijklmnopqrstuvwxyz'') c of
                     None \<Rightarrow> c | Some l \<Rightarrow> l)"

definition upper_char :: "char \<Rightarrow> char" where
  "upper_char c = (case map_of (zip ''abcdefghijklmnopqrstuvwxyz'' ''ABCDEFGHIJKLMNOPQRSTUVWXYZ'') c of
                     None \<Rightarrow> c | Some u \<Rightarrow> u)"

definition py_lower :: "string \<Rightarrow> string" where
  "py_lower s = map lower_char s"

definition py_upper :: "string \<Rightarrow> string" where
  "py_upper s = map upper_char s"

text \<open>
  A float is modelled by its exact value: a rational number, or one of the three special
  values.  Rounding to binary64 is not modelled.
\<close>

datatype pyfloat = Fin rat | PInf | NInf | NaN


fun negate :: "pyfloat \<Rightarrow> pyfloat" where
  "negate (Fin v) = Fin (- v)"
| "negate PInf = NInf"
| "negate NInf = PInf"
| "negate NaN = NaN"

text \<open>
  \<^verbatim>\<open>digitpart ::= digit (["_"] digit)*\<close>.  \<open>digits_acc v n s\<close> continues a digit part whose
  value so far is \<open>v\<close>, read from \<open>n\<close> digits, and returns the value, the number of digits and
  the unread rest.
\<close>

fun digits_acc :: "int \<Rightarrow> nat \<Rightarrow> string \<Rightarrow> int \<times> nat \<times> string" where
  "digits_acc v n [] = (v, n, [])"
| "digits_acc v n [c] =
     (if is_digit c then (10 * v + digit_val c, Suc n, []) else (v, n, [c]))"
| "digits_acc v n (c # d # s) =
     (if is_digit c then digits_acc (10 * v + digit_val c) (Suc n) (d # s)
      else if c = CHR ''_'' \<and> is_digit d then digits_acc (10 * v + digit_val d) (Suc n) s
      else (v, n, c # d # s))"

definition digitpart :: "string \<Rightarrow> (int \<times> nat \<times> string) option" where
  "digitpart s = (case s of
       [] \<Rightarrow> None
     | c # r \<Rightarrow> if is_digit c then Some (digits_acc (digit_val c) 1 r) else None)"

text \<open>
  \<^verbatim>\<open>number ::= [digitpart] "." digitpart | digitpart ["."]\<close>, returned as the digits read as
  one number, the number of digits after the point, and the rest.
\<close>

definition number :: "string \<Rightarrow> (int \<times> nat \<times> string) option" where
  "number s = (case digitpart s of
       Some (ip, _, r) \<Rightarrow>
         (case r of
            [] \<Rightarrow> Some (ip, 0, [])
          | c # r' \<Rightarrow>
              if c = CHR ''.'' then
                (case digitpart r' of
                   Some (fp, k, r'') \<Rightarrow> Some (ip * 10 ^ k + fp, k, r'')
                 | None \<Rightarrow> Some (ip, 0, r'))
              else Some (ip, 0, r))
     | None \<Rightarrow>
         (case s of
            [] \<Rightarrow> None
          | c # r \<Rightarrow>
              if c = CHR ''.'' then
                (case digitpart r of Some (fp, k, r') \<Rightarrow> Some (fp, k, r') | None \<Rightarrow> None)
              else None))"

definition dec :: "int \<Rightarrow> int \<Rightarrow> rat" where
  \<comment> \<open>the value \<open>m * 10\<^sup>e\<close>\<close>
  "dec m e = (if 0 \<le> e then of_int m * 10 ^ nat e else of_int m / 10 ^ nat (- e))"

definition split_sign :: "string \<Rightarrow> bool \<times> string" where
  \<comment> \<open>an optional sign; the flag is set for a minus sign\<close>
  "split_sign s = (case s of
       [] \<Rightarrow> (False, [])
     | c # r \<Rightarrow> if c = CHR ''-'' then (True, r) else if c = CHR ''+'' then (False, r) else (False, s))"

text \<open>\<^verbatim>\<open>floatnumber ::= number [("e" | "E") [sign] digitpart]\<close>, up to the end of the string.\<close>

definition floatnumber :: "string \<Rightarrow> rat option" where
  "floatnumber s = (case number s of
       None \<Rightarrow> None
     | Some (m, k, r) \<Rightarrow>
         (case r of
            [] \<Rightarrow> Some (dec m (- int k))
          | c # r' \<Rightarrow>
              if c = CHR ''e'' \<or> c = CHR ''E'' then
                (case split_sign r' of (neg, r'') \<Rightarrow>
                   (case digitpart r'' of
                      Some (ev, _, []) \<Rightarrow>
                        Some (dec m ((if neg then - ev else ev) - int k))
                    | _ \<Rightarrow> None))
              else None))"

definition absfloatvalue :: "string \<Rightarrow> pyfloat option" where
  "absfloatvalue s =
     (if py_lower s = ''inf'' \<or> py_lower s = ''infinity'' then Some PInf
      else if py_lower s = ''nan'' then Some NaN
      else map_option Fin (floatnumber s))"

definition py_float :: "string \<Rightarrow> pyfloat option" where
  \<comment> \<open>\<^verbatim>\<open>float(s)\<close>; \<open>None\<close> stands for the \<^verbatim>\<open>ValueError\<close>\<close>
  "py_float s = (case split_sign (strip_with is_space_num s) of
       (neg, r) \<Rightarrow>
         (case r of
            [] \<Rightarrow> None
          | c # _ \<Rightarrow>
              if c = CHR ''-'' \<or> c = CHR ''+'' then None
              else map_option (if neg then negate else id) (absfloatvalue r)))"

section \<open>fetchers.parse_float\<close>



definition py_int :: "string \<Rightarrow> int option" where
  \<comment> \<open>\<^verbatim>\<open>int(s)\<close> in base 10; \<open>None\<close> stands for the \<^verbatim>\<open>ValueError\<close>\<close>
  "py_int s = (case split_sign (strip_with is_space_num s) of
       (neg, r) \<Rightarrow>
         (case digitpart r of
            Some (v, _, []) \<Rightarrow> Some (if neg then - v else v)
          | _ \<Rightarrow> None))"

section \<open>Exceptions\<close>

text \<open>
  The exception classes of \<^verbatim>\<open>psx/exceptions.py\<close>, the class \<^verbatim>\<open>PSXRequestError\<close> that
  \<^verbatim>\<open>psx/fetchers.py\<close> defines for itself (here \<open>FetchersRequestError\<close>), and the built-in
  and library exceptions that the modelled code can meet.  An exception raised as
  \<^verbatim>\<open>raise X(f"...: {str(e)}")\<close> keeps the exception \<open>e\<close> whose text it quotes.
\<close>

datatype exn =
    ValueError string
  | KeyError string
  | OverflowError
  | RequestException
  | HTTPError int
  | PSXDataError
  | PSXConnectionError exn
  | PSXRequestError exn
  | FetchersRequestError fetch_msg
and fetch_msg =
    Unauthorized
  | HttpStatus int
  | InvalidJson
  | NoTable
  | RequestFailed exn
  | ErrorFetching exn

section \<open>Calendar dates\<close>

text \<open>
  A \<^verbatim>\<open>datetime.date\<close> is the triple of year, month and day; the lexicographic order on
  triples is the chronological order.  The arithmetic follows the pure-Python \<^verbatim>\<open>datetime\<close>
  module: \<^verbatim>\<open>_is_leap\<close>, \<^verbatim>\<open>_days_in_month\<close>, \<^verbatim>\<open>_days_before_year\<close>,
  \<^verbatim>\<open>_days_before_month\<close>, \<^verbatim>\<open>_ymd2ord\<close>, \<^verbatim>\<open>_ord2ymd\<close>.
\<close>

type_synonym date = "int \<times> int \<times> int"

definition year :: "date \<Rightarrow> int" where "year d = fst d"
definition month :: "date \<Rightarrow> int" where "month d = fst (snd d)"
definition day :: "date \<Rightarrow> int" where "day d = snd (snd d)"

definition MAXYEAR :: int where "MAXYEAR = 9999"
definition MAXORDINAL :: int where "MAXORDINAL = 3652059"

definition is_leap :: "int \<Rightarrow> bool" where
  "is_leap y = (y mod 4 = 0 \<and> (y mod 100 \<noteq> 0 \<or> y mod 400 = 0))"

definition days_in_month :: "int \<Rightarrow> int \<Rightarrow> int" where
  "days_in_month y m =
     (if m = 2 then (if is_leap y then 29 else 28)
      else if m = 4 \<or> m = 6 \<or> m = 9 \<or> m = 11 then 30 else 31)"

definition days_before_year :: "int \<Rightarrow> int" where
  "days_before_year y = (y - 1) * 365 + (y - 1) div 4 - (y - 1) div 100 + (y - 1) div 400"

definition days_before_month :: "int \<Rightarrow> int \<Rightarrow> int" where
  "days_before_month y m = sum_list (map (days_in_month y) [1 .. m - 1])"

definition valid_date :: "date \<Rightarrow> bool" where
  "valid_date d = (1 \<le> year d \<and> year d \<le> MAXYEAR \<and> 1 \<le> month d \<and> month d \<le> 12
                   \<and> 1 \<le> day d \<and> day d \<le> days_in_month (year d) (month d))"

definition toordinal :: "date \<Rightarrow> int" where
  "toordinal d = days_before_year (year d) + days_before_month (year d) (month d) + day d"

definition fromordinal :: "int \<Rightarrow> date" where
  "fromordinal n0 =
     (let n = n0 - 1;
          n400 = n div 146097; n = n mod 146097;
          n100 = n div 36524; n = n mod 36524;
          n4 = n div 1461; n = n mod 1461;
          n1 = n div 365; n = n mod 365;
          y = n400 * 400 + 1 + n100 * 100 + n4 * 4 + n1
      in if n1 = 4 \<or> n100 = 4 then (y - 1, 12, 31)
         else
           let leapyear = (n1 = 3 \<and> (n4 \<noteq> 24 \<or> n100 = 3));
               m = (n + 50) div 32;
               preceding = days_before_month 1 m + (if m > 2 \<and> leapyear then 1 else 0)
           in if preceding > n
              then let m' = m - 1;
                       preceding' = preceding
                          - (days_in_month 1 m' + (if m' = 2 \<and> leapyear then 1 else 0))
                   in (y, m', n - preceding' + 1)
              else (y, m, n - preceding + 1))"

text \<open>
  A \<^verbatim>\<open>datetime\<close> is a date with the time of day in microseconds.  Subtracting
  \<^verbatim>\<open>timedelta(days=n)\<close> raises \<^verbatim>\<open>OverflowError\<close> when the timedelta cannot be built or
  the result leaves the supported range of dates.
\<close>

type_synonym datetime = "date \<times> nat"

definition date_of :: "datetime \<Rightarrow> date" where
  \<comment> \<open>\<^verbatim>\<open>dt.date()\<close>\<close>
  "date_of dt = fst dt"

definition sub_days :: "datetime \<Rightarrow> int \<Rightarrow> exn + datetime" where
  \<comment> \<open>\<^verbatim>\<open>dt - timedelta(days=n)\<close>\<close>
  "sub_days dt n =
     (if \<bar>n\<bar> > 999999999 then Inl OverflowError
      else let k = toordinal (fst dt) - n
           in if 1 \<le> k \<and> k \<le> MAXORDINAL then Inr (fromordinal k, snd dt)
              else Inl OverflowError)"

section \<open>The unit partitioner: PSXDataReader._generate_date_range\<close>

definition add_month :: "date \<Rightarrow> exn + date" where
  \<comment> \<open>\<^verbatim>\<open>d + relativedelta(months=1)\<close>: the day is clipped to the length of the new month,
      and \<^verbatim>\<open>date.replace\<close> refuses a year after \<open>MAXYEAR\<close>\<close>
  "add_month d =
     (let (y, m) = (if month d + 1 > 12 then (year d + 1, month d + 1 - 12)
                    else (year d, month d + 1));
          dd = min (days_in_month y m) (day d)
      in if y > MAXYEAR then Inl (ValueError ''year out of range'') else Inr (y, m, dd))"

fun extend_dates :: "nat \<Rightarrow> date list \<Rightarrow> exn + date list" where
  \<comment> \<open>the loop \<^verbatim>\<open>for _ in range(number_of_months)\<close>\<close>
  "extend_dates 0 dates = Inr dates"
| "extend_dates (Suc n) dates =
     (case add_month (last dates) of
        Inl e \<Rightarrow> Inl e
      | Inr next_date \<Rightarrow> extend_dates n (dates @ [next_date]))"

definition generate_date_range :: "date \<Rightarrow> date \<Rightarrow> exn + date list" where
  "generate_date_range start end =
     (let period_days = toordinal end - toordinal start;
          number_of_months = period_days div 30;
          current_date = (year start, month start, 1)
      in case extend_dates (nat number_of_months) [current_date] of
           Inl e \<Rightarrow> Inl e
         | Inr dates \<Rightarrow> Inr (if dates = [] then [start] else dates))"

section \<open>The period shorthand of PSXTicker.get_historical_data\<close>

definition period_start :: "datetime \<Rightarrow> string \<Rightarrow> exn + datetime" where
  \<comment> \<open>the branch \<^verbatim>\<open>if start_date is None\<close>; \<^verbatim>\<open>period[:-2]\<close> and \<^verbatim>\<open>period[-2:]\<close> are
      the string without and of its last two characters\<close>
  "period_start end_date period =
     (case py_int (take (length period - 2) period) of
        None \<Rightarrow> Inl (ValueError ''invalid literal for int()'')
      | Some v \<Rightarrow>
          let unit = drop (length period - 2) period
          in if unit = ''mo'' then sub_days end_date (v * 30)
             else if unit = ''y'' then sub_days end_date (v * 365)
             else Inl (ValueError ''Invalid period format''))"

section \<open>Tabular results\<close>

text \<open>
  A \<^verbatim>\<open>DataFrame\<close> is the list of its rows in index order; a row carries its index value
  (the timestamp) and its cells by column name.  A cell is a string, as scraped, or a number.
  The empty list is the empty frame \<^verbatim>\<open>pd.DataFrame()\<close>.
\<close>

datatype cell = Str string | Num pyfloat

type_synonym row = "(string \<times> cell) list"
type_synonym 't frame = "('t \<times> row) list"

section \<open>The HTML-scrape adapter: PSXDataReader._parse_html_table\<close>

text \<open>
  \<^verbatim>\<open>datetime.strptime(value, "%b %d, %Y")\<close>.  The format compiles to the regular expression
  \<^verbatim>\<open>(jan|...|dec)\s+(3[0-1]|[1-2]\d|0[1-9]|[1-9]| [1-9]),\s+(\d\d\d\d)\<close>, matched without
  regard to case against the whole string; the date found must exist.  \<open>None\<close> stands for the
  \<^verbatim>\<open>ValueError\<close>.
\<close>

definition month_abbrs :: "string list" where
  "month_abbrs = [''jan'', ''feb'', ''mar'', ''apr'', ''may'', ''jun'',
                  ''jul'', ''aug'', ''sep'', ''oct'', ''nov'', ''dec'']"

definition month_number :: "string \<Rightarrow> int option" where
  "month_number mon = map_of (zip month_abbrs [1, 2, 3, 4, 5, 6, 7, 8, 9, 10, 11, 12]) mon"

definition digits_val :: "string \<Rightarrow> int" where
  "digits_val ds = foldl (\<lambda>v c. 10 * v + digit_val c) 0 ds"

definition strptime :: "string \<Rightarrow> date option" where
  "strptime s =
     (case month_number (py_lower (take 3 s)) of
        None \<Rightarrow> None
      | Some m \<Rightarrow>
          let after_mon = drop 3 s;
              before_day = dropWhile is_space_str after_mon;
              day_digits = takeWhile is_digit before_day;
              after_day = dropWhile is_digit before_day;
              before_year = dropWhile is_space_str (drop 1 after_day)
          in if length before_day < length after_mon
                \<and> (length day_digits = 1 \<or> length day_digits = 2)
                \<and> take 1 after_day = '',''
                \<and> length before_year < length (drop 1 after_day)
                \<and> length before_year = 4 \<and> list_all is_digit before_year
             then (let d = digits_val day_digits; y = digits_val before_year
                   in if 1 \<le> d \<and> d \<le> 31 \<and> 1 \<le> y \<and> d \<le> days_in_month y m
                      then Some (y, m, d) else None)
             else None)"

definition HEADERS :: "string list" where
  "HEADERS = [''TIME'', ''OPEN'', ''HIGH'', ''LOW'', ''CLOSE'', ''VOLUME'']"

text \<open>
  \<^verbatim>\<open>stocks = defaultdict(list)\<close>: the list under \<^verbatim>\<open>"TIME"\<close> holds parsed dates, the lists
  under the other keys hold cell texts; a key never stored to has the empty list.
\<close>

type_synonym stocks = "date list \<times> (string \<Rightarrow> string list)"

fun store_cell :: "stocks \<Rightarrow> string \<times> string \<Rightarrow> stocks" where
  \<comment> \<open>the body of \<^verbatim>\<open>for key, value in zip(self.HEADERS, cols)\<close>; its \<^verbatim>\<open>continue\<close> leaves
      this cell out and goes on with the next cell of the same row\<close>
  "store_cell (ts, others) (key, v) =
     (if key = ''TIME'' then
        (case strptime v of
           None \<Rightarrow> (ts, others)
         | Some t \<Rightarrow> (ts @ [t], others))
      else (ts, others(key := others key @ [v])))"

definition store_row :: "stocks \<Rightarrow> string list \<Rightarrow> stocks" where
  \<comment> \<open>the body of \<^verbatim>\<open>for row in rows\<close>, on the stripped cell texts of the row\<close>
  "store_row st cols =
     (if length cols < length HEADERS then st
      else foldl store_cell st (zip HEADERS cols))"

definition frame_of_stocks :: "stocks \<Rightarrow> exn + date frame" where
  \<comment> \<open>\<^verbatim>\<open>pd.DataFrame(stocks, columns=self.HEADERS).set_index("TIME")\<close>: the constructor
      refuses columns of different lengths\<close>
  "frame_of_stocks st =
     (case st of (ts, others) \<Rightarrow>
        if list_all (\<lambda>k. length (others k) = length ts) (tl HEADERS)
        then Inr (map (\<lambda>i. (ts ! i, map (\<lambda>k. (k, Str (others k ! i))) (tl HEADERS)))
                      [0 ..< length ts])
        else Inl (ValueError ''All arrays must be of the same length''))"

definition parse_html_table :: "string list list \<Rightarrow> exn + date frame" where
  \<comment> \<open>the argument lists, for each \<^verbatim>\<open>tr\<close> of the page, the texts of its \<^verbatim>\<open>td\<close> cells\<close>
  "parse_html_table rows =
     (let st = foldl store_row ([], \<lambda>_. []) (map (map py_strip) rows)
      in if fst st = [] then Inr [] else frame_of_stocks st)"

section \<open>The merger: PSXDataReader._preprocess_data\<close>

fun drop_duplicated_keep_last :: "('t \<times> 'a) list \<Rightarrow> ('t \<times> 'a) list" where
  \<comment> \<open>\<^verbatim>\<open>df.loc[~df.index.duplicated(keep='last')]\<close>\<close>
  "drop_duplicated_keep_last [] = []"
| "drop_duplicated_keep_last (r # rs) =
     (if fst r \<in> fst ` set rs then drop_duplicated_keep_last rs
      else r # drop_duplicated_keep_last rs)"

definition numeric_cols :: "string list" where
  "numeric_cols = [''OPEN'', ''HIGH'', ''LOW'', ''CLOSE'', ''VOLUME'']"

definition to_numeric_coerce :: "string \<Rightarrow> pyfloat" where
  \<comment> \<open>\<^verbatim>\<open>pd.to_numeric(..., errors='coerce')\<close> on one string: what is not a numeric literal
      becomes \<open>NaN\<close>.  The literals of \<^verbatim>\<open>float\<close> stand for those that pandas recognises.\<close>
  "to_numeric_coerce s = (case py_float s of Some v \<Rightarrow> v | None \<Rightarrow> NaN)"

fun coerce_cell :: "cell \<Rightarrow> cell" where
  \<comment> \<open>\<^verbatim>\<open>pd.to_numeric(df[col].astype(str).str.replace(',', ''), errors='coerce')\<close> on one
      cell.  A number is printed by \<^verbatim>\<open>astype(str)\<close> without a comma and in a form that reads
      back as the same number.\<close>
  "coerce_cell (Str s) = Num (to_numeric_coerce (str_replace_char (CHR '','') [] s))"
| "coerce_cell (Num v) = Num v"

definition coerce_row :: "row \<Rightarrow> row" where
  \<comment> \<open>\<^verbatim>\<open>for col in numeric_cols: if col in df.columns: ...\<close>\<close>
  "coerce_row r = map (\<lambda>(k, v). if k \<in> set numeric_cols then (k, coerce_cell v) else (k, v)) r"

definition preprocess_data :: "('t::linorder) frame list \<Rightarrow> 't frame" where
  "preprocess_data data =
     (if data = [] then []
      else map (\<lambda>(t, r). (t, coerce_row r))
             (sort_key fst (drop_duplicated_keep_last (concat data))))"

section \<open>The bounded fetcher: PSXDataReader.get_historical_data\<close>

definition HISTORY_URL :: string where
  "HISTORY_URL = ''https://dps.psx.com.pk/historical''"

definition download_data ::
  "(string \<Rightarrow> int \<times> int \<times> string \<Rightarrow> exn + string list list) \<Rightarrow> string \<Rightarrow> date \<Rightarrow> exn + date frame" where
  \<comment> \<open>\<open>post url (month, year, symbol)\<close> is the outcome of the request, of
      \<^verbatim>\<open>raise_for_status\<close> and of reading the page: an exception, or the rows of the page.
      Every exception, that of the table parser included, is raised again as
      \<^verbatim>\<open>PSXRequestError\<close>.\<close>
  "download_data post symbol d =
     (case post HISTORY_URL (month d, year d, symbol) of
        Inl e \<Rightarrow> Inl (PSXRequestError e)
      | Inr rows \<Rightarrow>
          (case parse_html_table rows of
             Inl e \<Rightarrow> Inl (PSXRequestError e)
           | Inr df \<Rightarrow> Inr df))"

fun gather :: "'a list \<Rightarrow> (exn + 'a) list \<Rightarrow> exn + 'a list" where
  \<comment> \<open>the loop \<^verbatim>\<open>for future in as_completed(futures)\<close>: \<^verbatim>\<open>future.result()\<close> returns the
      frame of the task or raises the exception of the task\<close>
  "gather data [] = Inr data"
| "gather data (Inl e # futures) = Inl e"
| "gather data (Inr result # futures) = gather (data @ [result]) futures"

definition reader_get_historical_data ::
  "(string \<Rightarrow> int \<times> int \<times> string \<Rightarrow> exn + string list list) \<Rightarrow>
   ((exn + date frame) list \<Rightarrow> (exn + date frame) list) \<Rightarrow>
   string \<Rightarrow> date \<Rightarrow> date \<Rightarrow> exn + date frame" where
  \<comment> \<open>\<open>as_completed\<close> puts the finished tasks in their order of completion, whichever it is\<close>
  "reader_get_historical_data post as_completed symbol start_date end_date =
     (case generate_date_range start_date end_date of
        Inl e \<Rightarrow> Inl e
      | Inr dates \<Rightarrow>
          (case gather [] (as_completed (map (download_data post symbol) dates)) of
             Inl e \<Rightarrow> Inl e
           | Inr data \<Rightarrow> if data = [] then Inr [] else Inr (preprocess_data data)))"

section \<open>The ticker facade: PSXTicker\<close>

definition ticker_get_historical_data ::
  "(string \<Rightarrow> int \<times> int \<times> string \<Rightarrow> exn + string list list) \<Rightarrow>
   ((exn + date frame) list \<Rightarrow> (exn + date frame) list) \<Rightarrow>
   datetime \<Rightarrow> string \<Rightarrow> datetime option \<Rightarrow> datetime option \<Rightarrow> string \<Rightarrow> exn + date frame" where
  \<comment> \<open>\<^verbatim>\<open>PSXTicker(symbol).get_historical_data(start_date, end_date, period)\<close>; \<open>now\<close> is
      \<^verbatim>\<open>datetime.now()\<close>.  The period is read outside the \<^verbatim>\<open>try\<close>, the reader is called
      inside it.\<close>
  "ticker_get_historical_data post as_completed now symbol start_date end_date period =
     (let end_dt = (case end_date of None \<Rightarrow> now | Some e \<Rightarrow> e)
      in case (case start_date of None \<Rightarrow> period_start end_dt period | Some s \<Rightarrow> Inr s) of
           Inl e \<Rightarrow> Inl e
         | Inr start_dt \<Rightarrow>
             (case reader_get_historical_data post as_completed (py_upper symbol)
                     (date_of start_dt) (date_of end_dt) of
                Inl e \<Rightarrow> Inl (PSXRequestError e)
              | Inr df \<Rightarrow> Inr df))"

section \<open>Intraday data: PSXDataReader.get_intraday_data\<close>

text \<open>
  The body of the intraday response once read as JSON: the value under \<^verbatim>\<open>"status"\<close> and the
  list under \<^verbatim>\<open>"data"\<close>, each absent or present.  A tick is
  \<^verbatim>\<open>[epoch_seconds, price, volume]\<close>.
\<close>

record intraday_body =
  status :: "int option"
  data :: "(int \<times> pyfloat \<times> pyfloat) list option"

definition TIMESERIES_URL :: string where
  "TIMESERIES_URL = ''https://dps.psx.com.pk/timeseries/int''"

definition tick_row :: "int \<times> pyfloat \<times> pyfloat \<Rightarrow> int \<times> row" where
  "tick_row t = (case t of (ts, price, volume) \<Rightarrow> (ts, [(''price'', Num price), (''volume'', Num volume)]))"

definition reader_get_intraday_data ::
  "(string \<Rightarrow> exn + intraday_body) \<Rightarrow> string \<Rightarrow> exn + int frame" where
  \<comment> \<open>\<open>get url\<close> is the outcome of the request, of \<^verbatim>\<open>raise_for_status\<close> and of
      \<^verbatim>\<open>response.json()\<close>.  The whole body of the function is inside one \<^verbatim>\<open>try\<close> whose
      handler \<^verbatim>\<open>except Exception\<close> raises \<^verbatim>\<open>PSXConnectionError\<close>; the test
      \<^verbatim>\<open>data["status"] != 1 or not data.get("data")\<close> is evaluated from left to right.\<close>
  "reader_get_intraday_data get symbol =
     (case get (TIMESERIES_URL @ ''/'' @ symbol) of
        Inl e \<Rightarrow> Inl (PSXConnectionError e)
      | Inr body \<Rightarrow>
          (case status body of
             None \<Rightarrow> Inl (PSXConnectionError (KeyError ''status''))
           | Some st \<Rightarrow>
               if st \<noteq> 1 then Inl (PSXConnectionError PSXDataError)
               else (case data body of
                       None \<Rightarrow> Inl (PSXConnectionError PSXDataError)
                     | Some ticks \<Rightarrow>
                         if ticks = [] then Inl (PSXConnectionError PSXDataError)
                         else Inr (sort_key fst (map tick_row ticks)))))"

definition ticker_get_intraday_data ::
  "(string \<Rightarrow> exn + intraday_body) \<Rightarrow> string \<Rightarrow> exn + int frame" where
  "ticker_get_intraday_data get symbol =
     (case reader_get_intraday_data get (py_upper symbol) of
        Inl e \<Rightarrow> Inl (PSXRequestError e)
      | Inr df \<Rightarrow> Inr df)"

section \<open>The direct-API adapter: fetchers.fetch_historical_data\<close>

text \<open>
  A response carries its status code and its body: not JSON, JSON with a list under
  \<^verbatim>\<open>"data"\<close>, or JSON without that key.
\<close>

datatype 'r json_body = NotJson | JsonData "'r list" | JsonNoData

record 'r response =
  status_code :: int
  body :: "'r json_body"

definition API_URL :: string where
  "API_URL = ''https://dps.psx.com.pk/api''"

definition is_request_exception :: "exn \<Rightarrow> bool" where
  \<comment> \<open>the subclasses of \<^verbatim>\<open>requests.exceptions.RequestException\<close>\<close>
  "is_request_exception e = (case e of RequestException \<Rightarrow> True | HTTPError _ \<Rightarrow> True | _ \<Rightarrow> False)"

definition request_with_fallback ::
  "(string \<Rightarrow> 'p \<Rightarrow> exn + 'r response) \<Rightarrow> 'p \<Rightarrow> string list \<times> (exn + 'r response)" where
  \<comment> \<open>the first request and, after a 404, the request to the old endpoint; the list names
      the URLs requested, in order\<close>
  "request_with_fallback get params =
     (let url = API_URL @ ''/historical/equities''
      in case get url params of
           Inl e \<Rightarrow> ([url], Inl e)
         | Inr response \<Rightarrow>
             if status_code response = 404
             then (let url' = API_URL @ ''/historical'' in ([url, url'], get url' params))
             else ([url], Inr response))"

definition read_response ::
  "('r list \<Rightarrow> exn + date frame) \<Rightarrow> ('r response \<Rightarrow> exn + date frame) \<Rightarrow> 'r response \<Rightarrow> exn + date frame" where
  \<comment> \<open>from the test for 401 to the end of the \<^verbatim>\<open>try\<close> block.  \<open>convert\<close> stands for the
      construction of the frame from a non-empty list of records, \<open>html_table\<close> for the
      parse of the old HTML format.\<close>
  "read_response convert html_table response =
     (if status_code response = 401 then Inl (FetchersRequestError Unauthorized)
      else if status_code response \<noteq> 200
      then Inl (FetchersRequestError (HttpStatus (status_code response)))
      else case body response of
             NotJson \<Rightarrow> Inl (FetchersRequestError InvalidJson)
           | JsonData records \<Rightarrow> if records = [] then Inr [] else convert records
           | JsonNoData \<Rightarrow> html_table response)"

definition fetch_historical_data ::
  "(string \<Rightarrow> string \<times> date \<times> date \<Rightarrow> exn + 'r response) \<Rightarrow>
   ('r list \<Rightarrow> exn + date frame) \<Rightarrow> ('r response \<Rightarrow> exn + date frame) \<Rightarrow>
   string \<Rightarrow> date \<Rightarrow> date \<Rightarrow> string list \<times> (exn + date frame)" where
  \<comment> \<open>the result is paired with the URLs requested.  The handlers of the \<^verbatim>\<open>try\<close> raise
      \<^verbatim>\<open>PSXRequestError("Request failed: ...")\<close> for an exception of the request and
      \<^verbatim>\<open>PSXRequestError("Error fetching historical data: ...")\<close> for any other, those raised
      in the block itself included.\<close>
  "fetch_historical_data get convert html_table symbol from_date to_date =
     (case request_with_fallback get (symbol, from_date, to_date) of
        (urls, Inl e) \<Rightarrow>
          (urls, Inl (FetchersRequestError
                        (if is_request_exception e then RequestFailed e else ErrorFetching e)))
      | (urls, Inr response) \<Rightarrow>
          (urls, case read_response convert html_table response of
                   Inl e \<Rightarrow> Inl (FetchersRequestError (ErrorFetching e))
                 | Inr df \<Rightarrow> Inr df))"

section \<open>Properties\<close>

subsection \<open>parse_float\<close>
















subsection \<open>The merger\<close>


















subsection \<open>Numeric coercion in the merger\<close>







subsection \<open>The unit partitioner\<close>

text \<open>
  The partitioner returns one date more than the number of whole 30-day spans between the
  two dates, starting with the first day of the month of the start date.
\<close>

lemma extend_dates_length:
  "extend_dates n ds = Inr ds' \<Longrightarrow> length ds' = length ds + n \<and> take (length ds) ds' = ds"
proof (induction n arbitrary: ds)
  case 0
  then show ?case by simp
next
  case (Suc n)
  then obtain d where a: "add_month (last ds) = Inr d" and e: "extend_dates n (ds @ [d]) = Inr ds'"
    by (auto split: sum.splits)
  from Suc.IH[OF e] have "length ds' = length ds + Suc n" and "take (Suc (length ds)) ds' = ds @ [d]"
    by simp_all
  then show ?case
    by (metis append_eq_conv_conj take_take min.absorb1 le_add1 plus_1_eq_Suc add.commute length_append_singleton butlast_snoc butlast_take diff_Suc_1 le_SucI order_refl)
qed

lemma generate_date_range_length:
  assumes "generate_date_range start_date end_date = Inr ds"
  shows "length ds = Suc (nat ((toordinal end_date - toordinal start_date) div 30))
         \<and> hd ds = (year start_date, month start_date, 1)"
proof -
  let ?n = "nat ((toordinal end_date - toordinal start_date) div 30)"
  let ?c = "(year start_date, month start_date, 1)"
  from assms obtain ds' where e: "extend_dates ?n [?c] = Inr ds'"
      and d: "ds = (if ds' = [] then [start_date] else ds')"
    by (auto simp: generate_date_range_def Let_def split: sum.splits)
  from extend_dates_length[OF e] have l: "length ds' = Suc ?n" and t: "take 1 ds' = [?c]"
    by simp_all
  from l have "ds' \<noteq> []" by auto
  with d have "ds = ds'" by simp
  with l t show ?thesis
    by (cases ds') auto
qed

text \<open>
  Claim C3 asks for one unit per calendar month that the range touches.  The partitioner
  counts 30-day spans instead: from 31 January 2023 to 1 February 2023, and even to
  28 February 2023, it returns the unit of January alone, so that no unit covers February;
  from 1 to 31 January 2023 it returns the units of January and of February, a month that
  the range does not touch.
\<close>

theorem generate_date_range_misses_touched_month:
  "generate_date_range (2023, 1, 31) (2023, 2, 1) = Inr [(2023, 1, 1)]
   \<and> generate_date_range (2023, 1, 31) (2023, 2, 28) = Inr [(2023, 1, 1)]
   \<and> generate_date_range (2023, 1, 1) (2023, 1, 31) = Inr [(2023, 1, 1), (2023, 2, 1)]"
  by code_simp

subsection \<open>The HTML-scrape adapter\<close>

lemma store_row_short: "length cols < 6 \<Longrightarrow> store_row st cols = st"
  by (simp add: store_row_def HEADERS_def)

text \<open>
  Claim C5 asks that a row whose date does not parse be dropped as a whole.  The
  \<^verbatim>\<open>continue\<close> of the parser leaves out the date of such a row only: its five other cells
  are stored, the columns get different lengths, and the construction of the frame raises
  for the whole page, valid rows included; the download of the unit then raises
  \<^verbatim>\<open>PSXRequestError\<close>.  A row with fewer than six cells is dropped, as the claim says.
\<close>

theorem parse_html_table_invalid_date_row_raises:
  "parse_html_table [[''Jan 02, 2024'', ''1'', ''2'', ''3'', ''4'', ''5''],
                     [''N/A'', ''1'', ''2'', ''3'', ''4'', ''5'']]
     = Inl (ValueError ''All arrays must be of the same length'')
   \<and> download_data (\<lambda>url form. Inr [[''Jan 02, 2024'', ''1'', ''2'', ''3'', ''4'', ''5''],
                                      [''N/A'', ''1'', ''2'', ''3'', ''4'', ''5'']])
         ''HBL'' (2024, 1, 1)
     = Inl (PSXRequestError (ValueError ''All arrays must be of the same length''))
   \<and> parse_html_table [[''Jan 02, 2024'', ''1'', ''2'', ''3'', ''4'', ''5''],
                       [''Jan 03, 2024'', ''1'', ''2'', ''3'']]
     = Inr [((2024, 1, 2), [(''OPEN'', Str ''1''), (''HIGH'', Str ''2''), (''LOW'', Str ''3''),
                            (''CLOSE'', Str ''4''), (''VOLUME'', Str ''5'')])]"
  by code_simp

subsection \<open>The period shorthand\<close>

text \<open>
  The unit of a period is read as its last two characters, so that it is never \<open>"y"\<close>
  when a number stands before it: only the periods in months give a start date.
\<close>

lemma period_year_unit_unreachable:
  assumes "drop (length p - 2) p = ''y''"
  shows "py_int (take (length p - 2) p) = None"
proof -
  from assms have "length (drop (length p - 2) p) = 1" by simp
  then have "length p - 2 = 0" by simp
  then show ?thesis
    by (simp add: py_int_def strip_with_def split_sign_def digitpart_def)
qed

lemma period_start_only_months:
  assumes "period_start e p = Inr s"
  shows "\<exists>v. py_int (take (length p - 2) p) = Some v \<and> drop (length p - 2) p = ''mo''
             \<and> sub_days e (v * 30) = Inr s"
  using assms period_year_unit_unreachable[of p]
  by (auto simp: period_start_def Let_def split: option.splits if_splits)

text \<open>
  Claim C6 asks that a period \<open>"Xy"\<close> give the start \<open>X * 365\<close> days before the end.  The
  facade raises \<^verbatim>\<open>ValueError\<close> instead: for \<open>"1y"\<close> the number is read from the empty
  string, for \<open>"10y"\<close> the unit read is \<open>"0y"\<close>.  A period in months works as claimed:
  \<open>"3mo"\<close> before 15 June 2024 gives 17 March 2024.
\<close>

theorem period_in_years_raises:
  "ticker_get_historical_data post as_completed now symbol None (Some ((2024, 6, 15), 0)) ''1y''
     = Inl (ValueError ''invalid literal for int()'')
   \<and> period_start ((2024, 6, 15), 0) ''1y'' = Inl (ValueError ''invalid literal for int()'')
   \<and> period_start ((2024, 6, 15), 0) ''10y'' = Inl (ValueError ''Invalid period format'')
   \<and> period_start ((2024, 6, 15), 0) ''3mo'' = Inr ((2024, 3, 17), 0)"
proof -
  have a: "period_start ((2024, 6, 15), 0) ''1y'' = Inl (ValueError ''invalid literal for int()'')"
    by code_simp
  have b: "period_start ((2024, 6, 15), 0) ''10y'' = Inl (ValueError ''Invalid period format'')"
    by code_simp
  have c: "period_start ((2024, 6, 15), 0) ''3mo'' = Inr ((2024, 3, 17), 0)"
    by code_simp
  from a b c show ?thesis
    by (simp add: ticker_get_historical_data_def)
qed

subsection \<open>Intraday data\<close>

text \<open>
  Claim C9 asks for a data error when the status is not 1 or the data are missing or empty.
  The reader raises \<^verbatim>\<open>PSXDataError\<close> inside its own \<^verbatim>\<open>try\<close> block, whose handler catches
  it and raises \<^verbatim>\<open>PSXConnectionError\<close>: the caller never sees a data error.
\<close>

theorem intraday_data_error_raised_as_connection_error:
  "reader_get_intraday_data
       (\<lambda>url. Inr \<lparr>status = Some 0, data = Some [(1700000000, Fin 100, Fin 5)]\<rparr>) ''HBL''
     = Inl (PSXConnectionError PSXDataError)
   \<and> reader_get_intraday_data (\<lambda>url. Inr \<lparr>status = Some 1, data = Some []\<rparr>) ''HBL''
     = Inl (PSXConnectionError PSXDataError)
   \<and> reader_get_intraday_data (\<lambda>url. Inr \<lparr>status = Some 1, data = None\<rparr>) ''HBL''
     = Inl (PSXConnectionError PSXDataError)
   \<and> reader_get_intraday_data get symbol \<noteq> Inl PSXDataError
   \<and> ticker_get_intraday_data get symbol \<noteq> Inl PSXDataError"
  by (auto simp: reader_get_intraday_data_def ticker_get_intraday_data_def
           split: sum.splits option.splits)

subsection \<open>The direct-API adapter\<close>

text \<open>
  Claim C7.  The adapter requests the endpoint \<open>/api/historical/equities\<close>; after a 404 it
  requests \<open>/api/historical\<close> once, with the same parameters, and goes on with that
  response.  A response with status 401 makes it fail at once with the message of an
  unauthorized access, any other status than 200 with the message naming the HTTP status
  (a second 404 included), and a response with status 200 and an empty list under
  \<open>"data"\<close> gives the empty frame, not an error.
\<close>

theorem fetch_historical_data_status_handling:
  fixes get :: "string \<Rightarrow> string \<times> date \<times> date \<Rightarrow> exn + 'r response"
  shows
  "(get (API_URL @ ''/historical/equities'') (symb, d1, d2) = Inr r1 \<and> status_code r1 = 401 \<longrightarrow>
      fetch_historical_data get convert html_table symb d1 d2
        = ([API_URL @ ''/historical/equities''],
           Inl (FetchersRequestError (ErrorFetching (FetchersRequestError Unauthorized)))))
   \<and> (get (API_URL @ ''/historical/equities'') (symb, d1, d2) = Inr r1
        \<and> status_code r1 \<noteq> 200 \<and> status_code r1 \<noteq> 401 \<and> status_code r1 \<noteq> 404 \<longrightarrow>
      fetch_historical_data get convert html_table symb d1 d2
        = ([API_URL @ ''/historical/equities''],
           Inl (FetchersRequestError
                  (ErrorFetching (FetchersRequestError (HttpStatus (status_code r1)))))))
   \<and> (get (API_URL @ ''/historical/equities'') (symb, d1, d2) = Inr r1
        \<and> status_code r1 = 200 \<and> body r1 = JsonData [] \<longrightarrow>
      fetch_historical_data get convert html_table symb d1 d2
        = ([API_URL @ ''/historical/equities''], Inr []))
   \<and> (get (API_URL @ ''/historical/equities'') (symb, d1, d2) = Inr r1 \<and> status_code r1 = 404
        \<and> get (API_URL @ ''/historical'') (symb, d1, d2) = Inr r2 \<longrightarrow>
      fst (fetch_historical_data get convert html_table symb d1 d2)
        = [API_URL @ ''/historical/equities'', API_URL @ ''/historical'']
      \<and> (status_code r2 = 401 \<longrightarrow>
           snd (fetch_historical_data get convert html_table symb d1 d2)
             = Inl (FetchersRequestError (ErrorFetching (FetchersRequestError Unauthorized))))
      \<and> (status_code r2 \<noteq> 200 \<and> status_code r2 \<noteq> 401 \<longrightarrow>
           snd (fetch_historical_data get convert html_table symb d1 d2)
             = Inl (FetchersRequestError
                      (ErrorFetching (FetchersRequestError (HttpStatus (status_code r2))))))
      \<and> (status_code r2 = 200 \<and> body r2 = JsonData [] \<longrightarrow>
           snd (fetch_historical_data get convert html_table symb d1 d2) = Inr []))"
  by (auto simp: fetch_historical_data_def request_with_fallback_def read_response_def Let_def)

theorem fetch_historical_data_status_handling_witness:
  "fetch_historical_data
     (\<lambda>url p. Inr \<lparr>status_code = 401, body = (NotJson :: unit json_body)\<rparr>)
     (\<lambda>rs. Inr []) (\<lambda>r. Inr []) ''HBL'' (2024, 1, 1) (2024, 1, 31)
     = ([API_URL @ ''/historical/equities''],
        Inl (FetchersRequestError (ErrorFetching (FetchersRequestError Unauthorized))))
   \<and> fetch_historical_data
     (\<lambda>url p. Inr \<lparr>status_code = 500, body = (NotJson :: unit json_body)\<rparr>)
     (\<lambda>rs. Inr []) (\<lambda>r. Inr []) ''HBL'' (2024, 1, 1) (2024, 1, 31)
     = ([API_URL @ ''/historical/equities''],
        Inl (FetchersRequestError (ErrorFetching (FetchersRequestError (HttpStatus 500)))))
   \<and> fetch_historical_data
     (\<lambda>url p. Inr \<lparr>status_code = 200, body = (JsonData [] :: unit json_body)\<rparr>)
     (\<lambda>rs. Inr []) (\<lambda>r. Inr []) ''HBL'' (2024, 1, 1) (2024, 1, 31)
     = ([API_URL @ ''/historical/equities''], Inr [])
   \<and> fetch_historical_data
     (\<lambda>url p. if url = API_URL @ ''/historical/equities''
               then Inr \<lparr>status_code = 404, body = (NotJson :: unit json_body)\<rparr>
               else Inr \<lparr>status_code = 200, body = JsonData []\<rparr>)
     (\<lambda>rs. Inr []) (\<lambda>r. Inr []) ''HBL'' (2024, 1, 1) (2024, 1, 31)
     = ([API_URL @ ''/historical/equities'', API_URL @ ''/historical''], Inr [])
   \<and> fetch_historical_data
     (\<lambda>url p. Inr \<lparr>status_code = 404, body = (NotJson :: unit json_body)\<rparr>)
     (\<lambda>rs. Inr []) (\<lambda>r. Inr []) ''HBL'' (2024, 1, 1) (2024, 1, 31)
     = ([API_URL @ ''/historical/equities'', API_URL @ ''/historical''],
        Inl (FetchersRequestError (ErrorFetching (FetchersRequestError (HttpStatus 404)))))
   \<and> fetch_historical_data
     (\<lambda>url p. if url = API_URL @ ''/historical/equities''
               then Inr \<lparr>status_code = 404, body = (NotJson :: unit json_body)\<rparr>
               else Inr \<lparr>status_code = 401, body = NotJson\<rparr>)
     (\<lambda>rs. Inr []) (\<lambda>r. Inr []) ''HBL'' (2024, 1, 1) (2024, 1, 31)
     = ([API_URL @ ''/historical/equities'', API_URL @ ''/historical''],
        Inl (FetchersRequestError (ErrorFetching (FetchersRequestError Unauthorized))))"
proof -
  let ?u1 = "API_URL @ ''/historical/equities''" and ?u2 = "API_URL @ ''/historical''"
  let ?c = "\<lambda>rs :: unit list. (Inr [] :: exn + date frame)"
  let ?h = "\<lambda>r :: unit response. (Inr [] :: exn + date frame)"
  let ?r401 = "\<lparr>status_code = 401, body = (NotJson :: unit json_body)\<rparr>"
  let ?r500 = "\<lparr>status_code = 500, body = (NotJson :: unit json_body)\<rparr>"
  let ?r404 = "\<lparr>status_code = 404, body = (NotJson :: unit json_body)\<rparr>"
  let ?r200 = "\<lparr>status_code = 200, body = (JsonData [] :: unit json_body)\<rparr>"
  let ?g1 = "\<lambda>(url :: string) (p :: string \<times> date \<times> date). (Inr ?r401 :: exn + unit response)"
  let ?g2 = "\<lambda>(url :: string) (p :: string \<times> date \<times> date). (Inr ?r500 :: exn + unit response)"
  let ?g3 = "\<lambda>(url :: string) (p :: string \<times> date \<times> date). (Inr ?r200 :: exn + unit response)"
  let ?g4 = "\<lambda>(url :: string) (p :: string \<times> date \<times> date).
               if url = ?u1 then (Inr ?r404 :: exn + unit response) else Inr ?r200"
  let ?g5 = "\<lambda>(url :: string) (p :: string \<times> date \<times> date). (Inr ?r404 :: exn + unit response)"
  let ?g6 = "\<lambda>(url :: string) (p :: string \<times> date \<times> date).
               if url = ?u1 then (Inr ?r404 :: exn + unit response) else Inr ?r401"
  have ne: "?u2 \<noteq> ?u1"
    by (simp add: API_URL_def)
  have w1: "fetch_historical_data ?g1 ?c ?h ''HBL'' (2024, 1, 1) (2024, 1, 31)
     = ([?u1], Inl (FetchersRequestError (ErrorFetching (FetchersRequestError Unauthorized))))"
    using fetch_historical_data_status_handling[of ?g1 "''HBL''" "(2024, 1, 1)" "(2024, 1, 31)" ?r401 ?c ?h ?r401]
    by simp
  have w2: "fetch_historical_data ?g2 ?c ?h ''HBL'' (2024, 1, 1) (2024, 1, 31)
     = ([?u1], Inl (FetchersRequestError (ErrorFetching (FetchersRequestError (HttpStatus 500)))))"
    using fetch_historical_data_status_handling[of ?g2 "''HBL''" "(2024, 1, 1)" "(2024, 1, 31)" ?r500 ?c ?h ?r500]
    by simp
  have w3: "fetch_historical_data ?g3 ?c ?h ''HBL'' (2024, 1, 1) (2024, 1, 31) = ([?u1], Inr [])"
    using fetch_historical_data_status_handling[of ?g3 "''HBL''" "(2024, 1, 1)" "(2024, 1, 31)" ?r200 ?c ?h ?r200]
    by simp
  have w4: "fetch_historical_data ?g4 ?c ?h ''HBL'' (2024, 1, 1) (2024, 1, 31) = ([?u1, ?u2], Inr [])"
    using fetch_historical_data_status_handling[of ?g4 "''HBL''" "(2024, 1, 1)" "(2024, 1, 31)" ?r404 ?c ?h ?r200] ne
    by (simp add: prod_eq_iff)
  have w5: "fetch_historical_data ?g5 ?c ?h ''HBL'' (2024, 1, 1) (2024, 1, 31)
     = ([?u1, ?u2], Inl (FetchersRequestError (ErrorFetching (FetchersRequestError (HttpStatus 404)))))"
    using fetch_historical_data_status_handling[of ?g5 "''HBL''" "(2024, 1, 1)" "(2024, 1, 31)" ?r404 ?c ?h ?r404]
    by (simp add: prod_eq_iff)
  have w6: "fetch_historical_data ?g6 ?c ?h ''HBL'' (2024, 1, 1) (2024, 1, 31)
     = ([?u1, ?u2], Inl (FetchersRequestError (ErrorFetching (FetchersRequestError Unauthorized))))"
    using fetch_historical_data_status_handling[of ?g6 "''HBL''" "(2024, 1, 1)" "(2024, 1, 31)" ?r404 ?c ?h ?r401] ne
    by (simp add: prod_eq_iff)
  from w1 w2 w3 w4 w5 w6 show ?thesis
    by simp
qed

subsection \<open>The bounded fetcher\<close>

lemma gather_Inr: "gather acc fs = Inr d \<longleftrightarrow> (\<forall>f\<in>set fs. \<not> isl f) \<and> d = acc @ map projr fs"
  by (induction acc fs rule: gather.induct) auto

lemma gather_Inl: "gather acc fs = Inl e \<Longrightarrow> Inl e \<in> set fs"
  by (induction acc fs rule: gather.induct) auto

lemma download_data_error: "download_data post symbol d = Inl e \<Longrightarrow> \<exists>c. e = PSXRequestError c"
  by (auto simp: download_data_def split: sum.splits)

text \<open>
  Claim C2, as stated, fails: when every unit fails the fetcher raises, and one failing unit
  makes the whole batch raise although the other unit has succeeded.
\<close>

theorem reader_get_historical_data_all_units_fail_counterexample:
  "reader_get_historical_data (\<lambda>url form. Inl RequestException) (\<lambda>fs. fs)
       ''HBL'' (2023, 10, 1) (2023, 10, 5)
     = Inl (PSXRequestError RequestException)
   \<and> reader_get_historical_data
       (\<lambda>url form. if fst form = 11 then Inl RequestException
                    else Inr [[''Oct 02, 2023'', ''1'', ''2'', ''3'', ''4'', ''5'']])
       (\<lambda>fs. fs) ''HBL'' (2023, 10, 1) (2023, 11, 5)
     = Inl (PSXRequestError RequestException)"
  by code_simp

text \<open>
  Claim C2, amended.  An error raised while one unit is fetched is raised again by the task
  of that unit as \<^verbatim>\<open>PSXRequestError\<close>, and the fetcher, which takes the result of each finished
  task, lets it through: whatever the order of completion, the batch returns a result
  exactly when the fetch of every unit has succeeded, and raises the \<^verbatim>\<open>PSXRequestError\<close> of
  a failed unit as soon as one unit fails, all the more when all fail.
\<close>

theorem reader_get_historical_data_raises_unit_error:
  assumes "generate_date_range start_date end_date = Inr dates"
      and "set (as_completed (map (download_data post symbol) dates))
             = set (map (download_data post symbol) dates)"
  shows "((\<exists>d\<in>set dates. isl (download_data post symbol d)) \<longrightarrow>
            (\<exists>d\<in>set dates. \<exists>c. download_data post symbol d = Inl (PSXRequestError c)
               \<and> reader_get_historical_data post as_completed symbol start_date end_date
                   = Inl (PSXRequestError c)))
         \<and> ((\<forall>d\<in>set dates. \<not> isl (download_data post symbol d)) \<longrightarrow>
            (\<exists>df. reader_get_historical_data post as_completed symbol start_date end_date
                   = Inr df))"
proof -
  let ?fs = "map (download_data post symbol) dates"
  let ?cs = "as_completed ?fs"
  let ?R = "reader_get_historical_data post as_completed symbol start_date end_date"
  have R: "?R = (case gather [] ?cs of Inl e \<Rightarrow> Inl e
                 | Inr fr \<Rightarrow> if fr = [] then Inr [] else Inr (preprocess_data fr))"
    using assms(1) by (simp add: reader_get_historical_data_def)
  have first: "\<exists>d\<in>set dates. \<exists>c. download_data post symbol d = Inl (PSXRequestError c)
                 \<and> ?R = Inl (PSXRequestError c)"
    if "\<exists>d\<in>set dates. isl (download_data post symbol d)"
  proof -
    from that assms(2) have "\<exists>f\<in>set ?cs. isl f"
      by auto
    then have "\<forall>fr. gather [] ?cs \<noteq> Inr fr"
      by (auto simp: gather_Inr)
    then obtain e where g: "gather [] ?cs = Inl e"
      by (cases "gather [] ?cs") auto
    from gather_Inl[OF g] assms(2) obtain d where d: "d \<in> set dates"
        and dl: "download_data post symbol d = Inl e"
      by auto
    from download_data_error[OF dl] obtain c where "e = PSXRequestError c" ..
    with d dl g R show ?thesis
      by auto
  qed
  have second: "\<exists>df. ?R = Inr df" if "\<forall>d\<in>set dates. \<not> isl (download_data post symbol d)"
  proof -
    from that assms(2) have "\<forall>f\<in>set ?cs. \<not> isl f"
      by auto
    then have "gather [] ?cs = Inr (map projr ?cs)"
      by (simp add: gather_Inr)
    with R show ?thesis
      by simp
  qed
  from first second show ?thesis
    by blast
qed

theorem reader_get_historical_data_raises_unit_error_witness:
  "generate_date_range (2023, 10, 1) (2023, 11, 5) = Inr [(2023, 10, 1), (2023, 11, 1)]
   \<and> isl (download_data (\<lambda>url form. if fst form = 11 then Inl RequestException
                    else Inr [[''Oct 02, 2023'', ''1'', ''2'', ''3'', ''4'', ''5'']]) ''HBL'' (2023, 11, 1))
   \<and> \<not> isl (download_data (\<lambda>url form. if fst form = 11 then Inl RequestException
                    else Inr [[''Oct 02, 2023'', ''1'', ''2'', ''3'', ''4'', ''5'']]) ''HBL'' (2023, 10, 1))
   \<and> (\<exists>c. reader_get_historical_data
              (\<lambda>url form. if fst form = 11 then Inl RequestException
                    else Inr [[''Oct 02, 2023'', ''1'', ''2'', ''3'', ''4'', ''5'']])
              rev ''HBL'' (2023, 10, 1) (2023, 11, 5) = Inl (PSXRequestError c))
   \<and> (\<exists>df. reader_get_historical_data
              (\<lambda>url form. Inr [[''Oct 02, 2023'', ''1'', ''2'', ''3'', ''4'', ''5'']])
              rev ''HBL'' (2023, 10, 1) (2023, 11, 5) = Inr df)"
proof -
  let ?P = "\<lambda>(url :: string) (form :: int \<times> int \<times> string).
              if fst form = 11 then (Inl RequestException :: exn + string list list)
              else Inr [[''Oct 02, 2023'', ''1'', ''2'', ''3'', ''4'', ''5'']]"
  let ?Q = "\<lambda>(url :: string) (form :: int \<times> int \<times> string).
              (Inr [[''Oct 02, 2023'', ''1'', ''2'', ''3'', ''4'', ''5'']] :: exn + string list list)"
  have g: "generate_date_range (2023, 10, 1) (2023, 11, 5) = Inr [(2023, 10, 1), (2023, 11, 1)]"
    by code_simp
  have f: "isl (download_data ?P ''HBL'' (2023, 11, 1))"
    by (simp add: download_data_def month_def)
  have s: "\<not> isl (download_data ?P ''HBL'' (2023, 10, 1))"
    by code_simp
  have q: "\<forall>d \<in> set [(2023, 10, 1), (2023, 11, 1)]. \<not> isl (download_data ?Q ''HBL'' d)"
    by (auto simp: download_data_def split: sum.splits) (code_simp+)
  have a: "\<exists>c. reader_get_historical_data ?P rev ''HBL'' (2023, 10, 1) (2023, 11, 5)
              = Inl (PSXRequestError c)"
    using reader_get_historical_data_raises_unit_error[OF g, of rev ?P "''HBL''"] f
    by auto
  have b: "\<exists>df. reader_get_historical_data ?Q rev ''HBL'' (2023, 10, 1) (2023, 11, 5) = Inr df"
    using reader_get_historical_data_raises_unit_error[OF g, of rev ?Q "''HBL''"] q
    by auto
  from g f s a b show ?thesis
    by blast
qed

subsection \<open>The ticker facade\<close>









end
